theory Spec2Isabelle
  imports Main "HOL-Library.Sublist"
begin

section \<open>Card API pull pipeline (src/\_workers\_next/src/lib/card-api.ts)\<close>

subsection \<open>Strings\<close>

text \<open>
  A JavaScript string is modelled as a HOL \<open>string\<close>: a list of code units below 256.
  In that range \<open>String.prototype.trim\<close> strips TAB, LF, VT, FF, CR, SPACE and NBSP, and
  \<open>toLowerCase\<close> maps A-Z and the Latin-1 capitals (0xC0-0xDE without 0xD7) 32 places up.
\<close>

definition isWhiteSpace :: "char \<Rightarrow> bool" where
  "isWhiteSpace c =
     (c \<in> set [CHR 0x09, CHR 0x0A, CHR 0x0B, CHR 0x0C, CHR 0x0D, CHR 0x20, CHR 0xA0])"

definition trim :: "string \<Rightarrow> string" where
  "trim s = rev (dropWhile isWhiteSpace (rev (dropWhile isWhiteSpace s)))"

definition toLowerChar :: "char \<Rightarrow> char" where
  "toLowerChar c =
     (let n = (of_char c :: nat)
      in if (65 \<le> n \<and> n \<le> 90) \<or> (192 \<le> n \<and> n \<le> 222 \<and> n \<noteq> 215)
         then char_of (n + 32) else c)"

definition toLowerCase :: "string \<Rightarrow> string" where
  "toLowerCase s = map toLowerChar s"

text \<open>\<open>text.includes(needle)\<close>: the needle occurs as a contiguous run of the text.\<close>

definition str_includes :: "string \<Rightarrow> string \<Rightarrow> bool" where
  "str_includes text needle = sublist needle text"

text \<open>The decimal rendering of a number inside a template literal.\<close>

definition digitChar :: "nat \<Rightarrow> char" where
  "digitChar d = char_of (48 + d)"

fun showNat :: "nat \<Rightarrow> string" where
  "showNat n = (if n < 10 then [digitChar n] else showNat (n div 10) @ [digitChar (n mod 10)])"

subsection \<open>Decoded payloads\<close>

text \<open>
  The value \<open>payload: any\<close> that \<open>extractCardKey\<close> walks: what \<open>response.json()\<close> or
  \<open>response.text()\<close> produced, or \<open>undefined\<close> where a property is absent. An object
  is the list of its own properties. JSON numbers are kept as integers: the extractor
  only tests a number for being zero.
\<close>

datatype json =
    JUndefined
  | JNull
  | JBool bool
  | JNum int
  | JStr string
  | JArr "json list"
  | JObj "(string \<times> json) list"

text \<open>\<open>!payload\<close>\<close>

fun falsy :: "json \<Rightarrow> bool" where
  "falsy JUndefined = True"
| "falsy JNull = True"
| "falsy (JBool b) = (\<not> b)"
| "falsy (JNum n) = (n = 0)"
| "falsy (JStr s) = (s = [])"
| "falsy (JArr items) = False"
| "falsy (JObj props) = False"

text \<open>\<open>payload?.[k]\<close> on an object: the property's value, \<open>undefined\<close> when absent.\<close>

definition getProp :: "(string \<times> json) list \<Rightarrow> string \<Rightarrow> json" where
  "getProp props k = (case map_of props k of None \<Rightarrow> JUndefined | Some v \<Rightarrow> v)"

definition directKeys :: "string list" where
  "directKeys = [''cardKey'', ''card'', ''key'', ''code'']"

definition nestedKeys :: "string list" where
  "nestedKeys = [''data'', ''result'', ''item'']"

text \<open>
  The loop over \<open>directKeys\<close>: the first key bound to a string that is non-empty after
  trimming returns that string trimmed; \<open>None\<close> when the loop runs to its end.
\<close>

fun probeDirect :: "(string \<times> json) list \<Rightarrow> string list \<Rightarrow> string option" where
  "probeDirect props [] = None"
| "probeDirect props (k # ks) =
     (case getProp props k of
        JStr v \<Rightarrow> if trim v \<noteq> [] then Some (trim v) else probeDirect props ks
      | _ \<Rightarrow> probeDirect props ks)"

text \<open>
  The test of that loop on one key: the key is bound to a string whose trim is not empty.
\<close>

definition directHit :: "(string \<times> json) list \<Rightarrow> string \<Rightarrow> bool" where
  "directHit props k = (case getProp props k of JStr v \<Rightarrow> trim v \<noteq> [] | _ \<Rightarrow> False)"

text \<open>
  \<open>extractCardKey\<close> with its two recursive loops: \<open>extractItems\<close> is the loop over the
  elements of an array, \<open>extractNested\<close> the loop over \<open>nestedKeys\<close>.
\<close>

function extractCardKey :: "json \<Rightarrow> string"
  and extractItems :: "json list \<Rightarrow> string"
  and extractNested :: "(string \<times> json) list \<Rightarrow> string list \<Rightarrow> string"
where
  "extractCardKey payload =
     (if falsy payload then []
      else case payload of
        JStr s \<Rightarrow> trim s
      | JArr items \<Rightarrow> extractItems items
      | JObj props \<Rightarrow>
          (case probeDirect props directKeys of
             Some v \<Rightarrow> v
           | None \<Rightarrow> extractNested props nestedKeys)
      | _ \<Rightarrow> [])"
| "extractItems [] = []"
| "extractItems (item # rest) =
     (let v = extractCardKey item in if v \<noteq> [] then v else extractItems rest)"
| "extractNested props [] = []"
| "extractNested props (k # ks) =
     (let v = extractCardKey (getProp props k)
      in if v \<noteq> [] then v else extractNested props ks)"
  by pat_completeness auto
termination
proof (relation "measures
   [\<lambda>x. case x of
          Inl p \<Rightarrow> 2 * size p + 1
        | Inr (Inl items) \<Rightarrow> 2 * size (JArr items)
        | Inr (Inr (props, ks)) \<Rightarrow> 2 * size (JObj props),
    \<lambda>x. case x of
          Inl p \<Rightarrow> 0
        | Inr (Inl items) \<Rightarrow> 0
        | Inr (Inr (props, ks)) \<Rightarrow> length ks]", goal_cases)
  case (6 props k ks)
  have "size (getProp ps k) < size (JObj ps)" for ps
    by (induction ps) (auto simp: getProp_def split: option.splits)
  from this[of props] show ?case
    by simp
qed simp_all

subsection \<open>Thrown values\<close>

text \<open>
  A value caught by \<open>catch (error: any)\<close>, as far as the code looks at it:
  \<open>error?.message\<close> (\<open>None\<close> when the value has none) and what
  \<open>JSON.stringify(error || {})\<close> does: it contributes a text to the template literal
  (\<open>Inr\<close>), or it throws (\<open>Inl\<close>, the value it throws), as it does on a cyclic object
  or a BigInt.
\<close>

datatype thrown = Thrown (message: "string option") (serialized: "thrown + string")

text \<open>\<open>error?.message || d\<close>\<close>

definition messageOr :: "thrown \<Rightarrow> string \<Rightarrow> string" where
  "messageOr error d =
     (case message error of None \<Rightarrow> d | Some m \<Rightarrow> if m = [] then d else m)"

text \<open>
  \<open>isUniqueConstraintError\<close> returns a boolean, or throws what \<open>JSON.stringify\<close> throws.
\<close>

definition isUniqueConstraintError :: "thrown \<Rightarrow> thrown + bool" where
  "isUniqueConstraintError error =
     (case serialized error of
        Inl t \<Rightarrow> Inl t
      | Inr json \<Rightarrow>
          (let text = toLowerCase (messageOr error [] @ json)
           in Inr (str_includes text ''unique'' \<or> str_includes text ''constraint failed'')))"

subsection \<open>External collaborators and effects\<close>

type_synonym row = "string \<times> string option"

record request =
  reqUrl :: string
  reqMethod :: string
  reqHeaders :: "(string \<times> string) list"
  reqCache :: string

text \<open>
  A response as the code reads it: \<open>response.status\<close>,
  \<open>response.headers.get("content-type")\<close>, and what \<open>response.json()\<close> and
  \<open>response.text()\<close> resolve to or reject with.
\<close>

record response =
  status :: nat
  contentTypeHeader :: "string option"
  jsonBody :: "thrown + json"
  textBody :: "thrown + string"

text \<open>\<open>response.ok\<close> is, by the Fetch standard, a status in the range 200 to 299.\<close>

definition response_ok :: "response \<Rightarrow> bool" where
  "response_ok r = (200 \<le> status r \<and> status r \<le> 299)"

text \<open>
  The collaborators, each free to answer or to throw: the query
  \<open>db.select(...).from(settings).where(inArray(settings.key, keys))\<close>, the platform's
  \<open>new URL(s).toString()\<close> (\<open>None\<close> is its TypeError), \<open>fetch\<close>, and
  \<open>db.insert(cards).values({productId, cardKey})\<close> (\<open>None\<close> is success).
\<close>

record env =
  selectSettings :: "string list \<Rightarrow> thrown + row list"
  newURL :: "string \<Rightarrow> string option"
  fetch :: "request \<Rightarrow> thrown + response"
  insertCard :: "string \<Rightarrow> string \<Rightarrow> thrown option"

text \<open>The calls that leave the process, in the order they are issued.\<close>

datatype event =
    SettingsRead "string list"
  | HttpFetch request
  | CardInsert string string

text \<open>
  An asynchronous computation: the calls it issued, and either the value it resolved to
  (\<open>Inr\<close>) or the value it rejected with (\<open>Inl\<close>).
\<close>

type_synonym 'a io = "event list \<times> (thrown + 'a)"

definition returnIO :: "'a \<Rightarrow> 'a io" where
  "returnIO x = ([], Inr x)"

definition bindIO :: "'a io \<Rightarrow> ('a \<Rightarrow> 'b io) \<Rightarrow> 'b io" where
  "bindIO m f =
     (case m of
        (l, Inl e) \<Rightarrow> (l, Inl e)
      | (l, Inr x) \<Rightarrow> (case f x of (l', r) \<Rightarrow> (l @ l', r)))"

text \<open>\<open>try { await m } catch (error) { ... }\<close>: the rejection becomes a value.\<close>

definition tryIO :: "'a io \<Rightarrow> (thrown + 'a) io" where
  "tryIO m = (case m of (l, r) \<Rightarrow> (l, Inr r))"

definition liftIO :: "thrown + 'a \<Rightarrow> 'a io" where
  "liftIO r = ([], r)"

definition dbSelectSettings :: "env \<Rightarrow> string list \<Rightarrow> (row list) io" where
  "dbSelectSettings e keys = ([SettingsRead keys], selectSettings e keys)"

definition httpFetch :: "env \<Rightarrow> request \<Rightarrow> response io" where
  "httpFetch e req = ([HttpFetch req], fetch e req)"

definition dbInsertCard :: "env \<Rightarrow> string \<Rightarrow> string \<Rightarrow> unit io" where
  "dbInsertCard e productId cardKey =
     ([CardInsert productId cardKey],
      case insertCard e productId cardKey of None \<Rightarrow> Inr () | Some error \<Rightarrow> Inl error)"

subsection \<open>Configuration\<close>

record ProductCardApiConfig =
  enabled :: bool
  url :: string
  token :: string

datatype field = Enabled | Url | Token

fun fieldName :: "field \<Rightarrow> string" where
  "fieldName Enabled = ''enabled''"
| "fieldName Url = ''url''"
| "fieldName Token = ''token''"

definition keyOf :: "string \<Rightarrow> field \<Rightarrow> string" where
  "keyOf productId f = ''cards_api_'' @ fieldName f @ ''_'' @ productId"

definition resolveApiUrl :: "env \<Rightarrow> string \<Rightarrow> thrown + string" where
  "resolveApiUrl e rawUrl =
     (let trimmed = trim rawUrl
      in if trimmed = [] then Inr []
         else case newURL e trimmed of
                None \<Rightarrow> Inl (Thrown (Some ''Invalid URL'') (Inr ''{}''))
              | Some u \<Rightarrow> Inr u)"

text \<open>\<open>row.value || ""\<close> and \<open>values[key] || ""\<close>\<close>

definition orEmpty :: "string option \<Rightarrow> string" where
  "orEmpty v = (case v of None \<Rightarrow> [] | Some s \<Rightarrow> s)"

text \<open>The loop \<open>for (const row of rows) map[row.key] = row.value || ""\<close>.\<close>

fun collectRows :: "(string \<rightharpoonup> string) \<Rightarrow> row list \<Rightarrow> (string \<rightharpoonup> string)" where
  "collectRows m [] = m"
| "collectRows m (r # rows) = collectRows (m(fst r \<mapsto> orEmpty (snd r))) rows"

definition getSettingsUncached :: "env \<Rightarrow> string list \<Rightarrow> (string \<rightharpoonup> string) io" where
  "getSettingsUncached e keys =
     bindIO (tryIO (dbSelectSettings e keys)) (\<lambda>r.
       case r of
         Inr rows \<Rightarrow> returnIO (collectRows Map.empty rows)
       | Inl error \<Rightarrow>
           (case serialized error of
              Inl t \<Rightarrow> liftIO (Inl t)
            | Inr json \<Rightarrow>
                (let text = toLowerCase (messageOr error [] @ json)
                 in if str_includes text ''no such table'' \<and> str_includes text ''settings''
                    then returnIO Map.empty
                    else liftIO (Inl error))))"

definition getProductCardApiConfig :: "env \<Rightarrow> string \<Rightarrow> ProductCardApiConfig io" where
  "getProductCardApiConfig e productId =
     (let enabledKey = keyOf productId Enabled;
          urlKey = keyOf productId Url;
          tokenKey = keyOf productId Token
      in bindIO (getSettingsUncached e [enabledKey, urlKey, tokenKey]) (\<lambda>values.
           returnIO \<lparr>enabled = (values enabledKey = Some ''true''),
                     url = trim (orEmpty (values urlKey)),
                     token = trim (orEmpty (values tokenKey))\<rparr>))"

subsection \<open>The settings table\<close>

text \<open>
  The rows of the settings table, and the meaning of the query of \<open>getSettingsUncached\<close>
  on it: the rows whose key is among the requested ones.
\<close>

definition selectWhereKeyIn :: "row list \<Rightarrow> string list \<Rightarrow> row list" where
  "selectWhereKeyIn table keys = filter (\<lambda>r. fst r \<in> set keys) table"

text \<open>The value the table holds for a key: that of the last row with the key.\<close>

definition stored :: "row list \<Rightarrow> string \<Rightarrow> string option option" where
  "stored table k = map_of (rev table) k"

text \<open>
  Modelled from the spec: \<open>setSetting\<close> of \<open>@/lib/db/queries\<close>, which is not among the
  sources. The spec's Settings Store is a string-valued key/value persistence with a
  set operation: setting a key makes the store hold the value for it and leaves every
  other key as it was.
\<close>

definition setSetting :: "row list \<Rightarrow> string \<Rightarrow> string \<Rightarrow> row list" where
  "setSetting table k v = filter (\<lambda>r. fst r \<noteq> k) table @ [(k, Some v)]"

text \<open>
  \<open>saveProductCardApiConfig\<close>: the three writes of \<open>Promise.all\<close>, in the order of the
  array.
\<close>

definition saveProductCardApiConfig :: "row list \<Rightarrow> string \<Rightarrow> ProductCardApiConfig \<Rightarrow> row list" where
  "saveProductCardApiConfig table productId config =
     (let url' = trim (url config);
          token' = trim (token config);
          enabled' = enabled config;
          t1 = setSetting table (keyOf productId Enabled) (if enabled' then ''true'' else ''false'');
          t2 = setSetting t1 (keyOf productId Url) url';
          t3 = setSetting t2 (keyOf productId Token) token'
      in t3)"

subsection \<open>One pull\<close>

record outcome =
  ok :: bool
  skipped :: "bool option"
  error :: "string option"
  cardKey :: "string option"

definition failure :: "string \<Rightarrow> outcome" where
  "failure code = \<lparr>ok = False, skipped = None, error = Some code, cardKey = None\<rparr>"

text \<open>The request headers: \<open>Accept\<close>, and \<open>Authorization\<close> when there is a token.\<close>

definition requestHeaders :: "ProductCardApiConfig \<Rightarrow> (string \<times> string) list" where
  "requestHeaders config =
     [(''Accept'', ''application/json, text/plain;q=0.9, */*;q=0.8'')] @
     (if token config \<noteq> [] then [(''Authorization'', ''Bearer '' @ token config)] else [])"

text \<open>
  The payload: \<open>response.json()\<close> when the lower-cased content type contains
  \<open>application/json\<close>, the string of \<open>response.text()\<close> otherwise.
\<close>

definition decodeBody :: "response \<Rightarrow> thrown + json" where
  "decodeBody response =
     (let contentType = toLowerCase (orEmpty (contentTypeHeader response))
      in if str_includes contentType ''application/json''
         then jsonBody response
         else map_sum id JStr (textBody response))"

text \<open>The call \<open>fetch(requestUrl, {method: "GET", headers, cache: "no-store"})\<close>.\<close>

definition apiRequest :: "string \<Rightarrow> ProductCardApiConfig \<Rightarrow> request" where
  "apiRequest requestUrl config =
     \<lparr>reqUrl = requestUrl, reqMethod = ''GET'',
      reqHeaders = requestHeaders config, reqCache = ''no-store''\<rparr>"

definition pullOneCardFromApi :: "env \<Rightarrow> string \<Rightarrow> outcome io" where
  "pullOneCardFromApi e productId =
     bindIO (getProductCardApiConfig e productId) (\<lambda>config.
       if \<not> enabled config then
         returnIO \<lparr>ok = False, skipped = Some True, error = Some ''api_disabled'', cardKey = None\<rparr>
       else if url config = [] then
         returnIO (failure ''api_url_missing'')
       else
         case resolveApiUrl e (url config) of
           Inl _ \<Rightarrow> returnIO (failure ''api_url_invalid'')
         | Inr requestUrl \<Rightarrow>
             bindIO (httpFetch e (apiRequest requestUrl config))
               (\<lambda>response.
                  if \<not> response_ok response then
                    returnIO (failure (''api_request_failed_'' @ showNat (status response)))
                  else
                    bindIO (liftIO (decodeBody response)) (\<lambda>payload.
                      let key = extractCardKey payload
                      in if key = [] then
                           returnIO (failure ''api_card_missing'')
                         else
                           bindIO (tryIO (dbInsertCard e productId key)) (\<lambda>r.
                             case r of
                               Inl err \<Rightarrow>
                                 bindIO (liftIO (isUniqueConstraintError err)) (\<lambda>unique.
                                   if unique
                                   then returnIO (failure ''api_card_duplicate'')
                                   else returnIO (failure (messageOr err ''api_insert_failed'')))
                             | Inr _ \<Rightarrow>
                                 returnIO \<lparr>ok = True, skipped = None, error = None,
                                           cardKey = Some key\<rparr>))))"

subsection \<open>A concrete deployment\<close>

text \<open>
  The scenario of the specification: product \<open>p1\<close> configured with
  \<open>{enabled: true, url: "https://x/y", token: ""}\<close> and an upstream that answers 200 with
  the JSON body \<open>{"data": {"code": " ABC123 "}}\<close>. The table, what \<open>fetch\<close> resolves to
  and what the insert does are parameters.
\<close>

definition scenarioTable :: "row list" where
  "scenarioTable =
     [(''cards_api_enabled_p1'', Some ''true''),
      (''cards_api_url_p1'', Some ''https://x/y''),
      (''cards_api_token_p1'', Some [])]"

definition scenarioResponse :: response where
  "scenarioResponse =
     \<lparr>status = 200, contentTypeHeader = Some ''application/json; charset=utf-8'',
      jsonBody = Inr (JObj [(''data'', JObj [(''code'', JStr '' ABC123 '')])]),
      textBody = Inr ''{data:{code: ABC123 }}''\<rparr>"

definition scenarioEnv :: "row list \<Rightarrow> thrown + response \<Rightarrow> thrown option \<Rightarrow> env" where
  "scenarioEnv table answer inserted =
     \<lparr>selectSettings = (\<lambda>keys. Inr (selectWhereKeyIn table keys)),
      newURL = (\<lambda>s. if prefix ''https://'' s then Some s else None),
      fetch = (\<lambda>req. answer),
      insertCard = (\<lambda>productId key. inserted)\<rparr>"

section \<open>Properties\<close>

subsection \<open>Trimming and searching\<close>

lemma trim_Nil [simp]: "trim [] = []"
  by (simp add: trim_def)

lemma trim_idem [simp]: "trim (trim s) = trim s"
proof -
  let ?W = isWhiteSpace
  define u where "u = dropWhile ?W s"
  define v where "v = rev (dropWhile ?W (rev u))"
  have uv: "u = v @ rev (takeWhile ?W (rev u))"
    unfolding v_def by (metis rev_append rev_rev_ident takeWhile_dropWhile_id)
  have hdu: "u \<noteq> [] \<Longrightarrow> \<not> ?W (hd u)"
    unfolding u_def by (rule hd_dropWhile)
  have "v \<noteq> [] \<Longrightarrow> hd v = hd u"
    using uv by (metis hd_append2)
  moreover have "v \<noteq> [] \<Longrightarrow> u \<noteq> []"
    using uv by auto
  ultimately have hdv: "v \<noteq> [] \<Longrightarrow> \<not> ?W (hd v)"
    using hdu by simp
  have lead: "dropWhile ?W v = v"
    using hdv by (cases v) auto
  have "rev v = dropWhile ?W (rev u)"
    unfolding v_def by simp
  then have "rev v \<noteq> [] \<Longrightarrow> \<not> ?W (hd (rev v))"
    by (metis hd_dropWhile)
  then have trail: "dropWhile ?W (rev v) = rev v"
    by (cases "rev v") auto
  have "trim s = v"
    by (simp add: trim_def u_def v_def)
  moreover have "trim v = v"
    by (simp add: trim_def lead trail)
  ultimately show ?thesis by simp
qed

lemma str_includes_iff: "str_includes text needle \<longleftrightarrow> (\<exists>ps ss. text = ps @ needle @ ss)"
  by (simp add: str_includes_def sublist_def)

subsection \<open>The extractor\<close>

declare extractCardKey.simps [simp del]

lemma extractCardKey_shapes [simp]:
  "extractCardKey JUndefined = []"
  "extractCardKey JNull = []"
  "extractCardKey (JBool b) = []"
  "extractCardKey (JNum n) = []"
  "extractCardKey (JStr s) = trim s"
  "extractCardKey (JArr items) = extractItems items"
  "extractCardKey (JObj props) =
     (case probeDirect props directKeys of
        Some v \<Rightarrow> v
      | None \<Rightarrow> extractNested props nestedKeys)"
  by (simp_all add: extractCardKey.simps)

lemma probeDirect_trimmed: "probeDirect props ks = Some v \<Longrightarrow> trim v = v \<and> v \<noteq> []"
  by (induction ks) (auto split: json.splits if_splits)

lemma extract_trimmed:
  "trim (extractCardKey p) = extractCardKey p"
  "trim (extractItems items) = extractItems items"
  "trim (extractNested props ks) = extractNested props ks"
proof (induction p and items and props ks rule: extractCardKey_extractItems_extractNested.induct)
  case (1 payload)
  then show ?case
    by (cases payload) (auto split: option.splits dest: probeDirect_trimmed)
qed (auto simp: Let_def)

lemma probeDirect_find:
  "probeDirect props ks =
     (case find (directHit props) ks of
        None \<Rightarrow> None
      | Some k \<Rightarrow> Some (extractCardKey (getProp props k)))"
  by (induction ks) (auto simp: directHit_def split: json.splits)

lemma find_directHit_agree:
  "\<forall>k \<in> set ks. getProp props' k = getProp props k \<Longrightarrow>
   find (directHit props') ks = find (directHit props) ks"
  by (induction ks) (auto simp: directHit_def)

text \<open>
  C3. An object with a direct key (\<open>cardKey\<close>, \<open>card\<close>, \<open>key\<close>, \<open>code\<close>, in this
  priority) bound to a string that is non-empty after trimming yields the trimmed value
  of the first such key, whatever else the object holds: any object with the same values
  at the four direct keys yields the same result. The nested keys decide the result only
  when no direct key is such a string.
\<close>

theorem extractCardKey_direct_precedence:
  "(find (directHit props) [''cardKey'', ''card'', ''key'', ''code''] = Some k \<and>
    getProp props k = JStr s \<and>
    (\<forall>k' \<in> set [''cardKey'', ''card'', ''key'', ''code'']. getProp props' k' = getProp props k')
      \<longrightarrow> extractCardKey (JObj props') = trim s) \<and>
   (find (directHit props) [''cardKey'', ''card'', ''key'', ''code''] = None
      \<longrightarrow> extractCardKey (JObj props) = extractNested props [''data'', ''result'', ''item''])"
proof (intro conjI impI)
  assume h: "find (directHit props) [''cardKey'', ''card'', ''key'', ''code''] = Some k \<and>
    getProp props k = JStr s \<and>
    (\<forall>k' \<in> set [''cardKey'', ''card'', ''key'', ''code'']. getProp props' k' = getProp props k')"
  then have agree: "\<forall>k' \<in> set directKeys. getProp props' k' = getProp props k'"
    by (simp add: directKeys_def)
  from h have hit: "find (directHit props) directKeys = Some k"
    by (simp add: directKeys_def)
  then have "k \<in> set directKeys"
    by (auto simp: find_Some_iff)
  with agree h have "getProp props' k = JStr s"
    by simp
  moreover have "find (directHit props') directKeys = Some k"
    using find_directHit_agree[OF agree] hit by simp
  ultimately show "extractCardKey (JObj props') = trim s"
    by (simp add: probeDirect_find)
next
  assume "find (directHit props) [''cardKey'', ''card'', ''key'', ''code''] = None"
  then have "find (directHit props) directKeys = None"
    by (simp add: directKeys_def)
  then show "extractCardKey (JObj props) = extractNested props [''data'', ''result'', ''item'']"
    by (simp add: probeDirect_find nestedKeys_def)
qed

theorem extractCardKey_direct_precedence_witness:
  "extractCardKey (JObj [(''key'', JStr '' K1 ''), (''cardKey'', JStr ''  ''), (''code'', JStr ''C1''),
                          (''data'', JArr [JStr ''N2''])]) = ''K1'' \<and>
   extractCardKey (JObj [(''data'', JObj [(''code'', JStr '' ABC123 '')])]) = ''ABC123''"
proof -
  let ?p = "[(''data'', JObj [(''code'', JStr ''N1'')]), (''key'', JStr '' K1 ''),
             (''cardKey'', JStr ''  ''), (''code'', JStr ''C1'')]"
  let ?p' = "[(''key'', JStr '' K1 ''), (''cardKey'', JStr ''  ''), (''code'', JStr ''C1''),
              (''data'', JArr [JStr ''N2''])]"
  let ?q = "[(''data'', JObj [(''code'', JStr '' ABC123 '')])]"
  have h1: "find (directHit ?p) [''cardKey'', ''card'', ''key'', ''code''] = Some ''key'' \<and>
     getProp ?p ''key'' = JStr '' K1 '' \<and>
     (\<forall>k' \<in> set [''cardKey'', ''card'', ''key'', ''code'']. getProp ?p' k' = getProp ?p k')"
    by (simp add: directHit_def getProp_def trim_def isWhiteSpace_def)
  have h2: "find (directHit ?q) [''cardKey'', ''card'', ''key'', ''code''] = None"
    by (simp add: directHit_def getProp_def)
  have t: "trim '' K1 '' = ''K1''"
    by (simp add: trim_def isWhiteSpace_def)
  have n: "extractNested ?q [''data'', ''result'', ''item''] = ''ABC123''"
    by (simp add: getProp_def directKeys_def trim_def isWhiteSpace_def)
  from extractCardKey_direct_precedence[of ?p "''key''" "'' K1 ''" ?p'] h1 t
  have "extractCardKey (JObj ?p') = ''K1''"
    by simp
  moreover from extractCardKey_direct_precedence[of ?q] h2 n
  have "extractCardKey (JObj ?q) = ''ABC123''"
    by simp
  ultimately show ?thesis
    by simp
qed

text \<open>
  C4. A non-empty string payload yields its trim; the empty string, a number, a boolean,
  \<open>null\<close> and \<open>undefined\<close> yield the empty string.
\<close>

theorem extractCardKey_scalars:
  "(s \<noteq> [] \<longrightarrow> extractCardKey (JStr s) = trim s) \<and>
   extractCardKey (JStr []) = [] \<and>
   extractCardKey (JNum n) = [] \<and>
   extractCardKey (JBool b) = [] \<and>
   extractCardKey JNull = [] \<and>
   extractCardKey JUndefined = []"
  by simp

theorem extractCardKey_scalars_witness:
  "extractCardKey (JStr '' ABC123 '') = ''ABC123'' \<and>
   extractCardKey (JStr []) = [] \<and>
   extractCardKey (JNum 7) = [] \<and>
   extractCardKey (JBool True) = [] \<and>
   extractCardKey JNull = [] \<and>
   extractCardKey JUndefined = []"
proof -
  have t: "trim '' ABC123 '' = ''ABC123''"
    by (simp add: trim_def isWhiteSpace_def)
  from extractCardKey_scalars[of "'' ABC123 ''" 7 True] t show ?thesis
    by simp
qed

lemma extractItems_find:
  "extractItems items =
     (case find (\<lambda>p. extractCardKey p \<noteq> []) items of
        None \<Rightarrow> []
      | Some p \<Rightarrow> extractCardKey p)"
  by (induction items) (auto simp: Let_def)

text \<open>
  C5. An array yields the extraction of its leftmost element whose extraction is not
  empty, and the empty string when there is no such element.
\<close>

theorem extractCardKey_array_leftmost:
  "extractCardKey (JArr ps) =
     (case find (\<lambda>p. extractCardKey p \<noteq> []) ps of
        None \<Rightarrow> []
      | Some p \<Rightarrow> extractCardKey p)"
  by (simp add: extractItems_find)

theorem extractCardKey_array_leftmost_witness:
  "extractCardKey (JArr [JNum 3, JStr ''  '', JObj [(''key'', JStr ''K1 '')], JStr ''S2'']) = ''K1'' \<and>
   extractCardKey (JArr [JNull, JArr [], JObj []]) = []"
proof -
  let ?a = "[JNum 3, JStr ''  '', JObj [(''key'', JStr ''K1 '')], JStr ''S2'']"
  let ?b = "[JNull, JArr [], JObj []]"
  have a: "find (\<lambda>p. extractCardKey p \<noteq> []) ?a = Some (JObj [(''key'', JStr ''K1 '')])"
    by (simp add: trim_def isWhiteSpace_def directKeys_def nestedKeys_def getProp_def)
  have k: "extractCardKey (JObj [(''key'', JStr ''K1 '')]) = ''K1''"
    by (simp add: trim_def isWhiteSpace_def directKeys_def nestedKeys_def getProp_def)
  have b: "find (\<lambda>p. extractCardKey p \<noteq> []) ?b = None"
    by (simp add: directKeys_def nestedKeys_def getProp_def)
  from extractCardKey_array_leftmost[of ?a] a k
  have "extractCardKey (JArr ?a) = ''K1''"
    by simp
  moreover from extractCardKey_array_leftmost[of ?b] b
  have "extractCardKey (JArr ?b) = []"
    by simp
  ultimately show ?thesis
    by simp
qed

subsection \<open>Configuration and the settings table\<close>

lemma keyOf_distinct [simp]:
  "keyOf p Enabled \<noteq> keyOf p Url" "keyOf p Url \<noteq> keyOf p Enabled"
  "keyOf p Enabled \<noteq> keyOf p Token" "keyOf p Token \<noteq> keyOf p Enabled"
  "keyOf p Url \<noteq> keyOf p Token" "keyOf p Token \<noteq> keyOf p Url"
  by (simp_all add: keyOf_def)

lemma collectRows_lookup:
  "collectRows m rows k =
     (case map_of (rev rows) k of None \<Rightarrow> m k | Some v \<Rightarrow> Some (orEmpty v))"
  by (induction rows arbitrary: m) (auto simp: map_of_append map_add_def split: option.splits)

lemma map_of_filter_key:
  "map_of (filter (\<lambda>r. P (fst r)) xs) k = (if P k then map_of xs k else None)"
  by (induction xs) auto

lemma stored_select:
  "map_of (rev (selectWhereKeyIn table keys)) k = (if k \<in> set keys then stored table k else None)"
  using map_of_filter_key[where P = "\<lambda>a. a \<in> set keys" and xs = "rev table" and k = k]
  by (simp add: selectWhereKeyIn_def stored_def rev_filter)

lemma stored_setSetting:
  "stored (setSetting table k v) k' = (if k' = k then Some (Some v) else stored table k')"
  using map_of_filter_key[where P = "\<lambda>a. a \<noteq> k" and xs = "rev table" and k = k']
  by (simp add: stored_def setSetting_def rev_filter)

lemma config_of_table:
  "getProductCardApiConfig (e\<lparr>selectSettings := \<lambda>keys. Inr (selectWhereKeyIn table keys)\<rparr>) productId =
     ([SettingsRead [keyOf productId Enabled, keyOf productId Url, keyOf productId Token]],
      Inr \<lparr>enabled = (stored table (keyOf productId Enabled) = Some (Some ''true'')),
           url = trim (case stored table (keyOf productId Url) of Some (Some v) \<Rightarrow> v | _ \<Rightarrow> []),
           token = trim (case stored table (keyOf productId Token) of Some (Some v) \<Rightarrow> v | _ \<Rightarrow> [])\<rparr>)"
  by (auto simp: getProductCardApiConfig_def getSettingsUncached_def bindIO_def tryIO_def
      dbSelectSettings_def returnIO_def Let_def collectRows_lookup stored_select orEmpty_def
      split: option.splits)

lemma config_of_missing_table:
  "serialized x = Inr json \<Longrightarrow>
   str_includes (toLowerCase (messageOr x [] @ json)) ''no such table'' \<Longrightarrow>
   str_includes (toLowerCase (messageOr x [] @ json)) ''settings'' \<Longrightarrow>
   getProductCardApiConfig (e\<lparr>selectSettings := \<lambda>keys. Inl x\<rparr>) productId =
     ([SettingsRead [keyOf productId Enabled, keyOf productId Url, keyOf productId Token]],
      Inr \<lparr>enabled = False, url = [], token = []\<rparr>)"
  by (simp add: getProductCardApiConfig_def getSettingsUncached_def bindIO_def tryIO_def
      dbSelectSettings_def returnIO_def Let_def orEmpty_def)

text \<open>
  C7. \<open>getProductCardApiConfig\<close> issues one query, for the three keys
  \<open>cards_api_enabled_<id>\<close>, \<open>cards_api_url_<id>\<close>, \<open>cards_api_token_<id>\<close>. On every
  content of the settings table \<open>enabled\<close> is true exactly when the table holds the
  string \<open>true\<close> for the enabled key, \<open>url\<close> and \<open>token\<close> are the trimmed values held
  for their keys, and a key without a value gives \<open>false\<close> or the empty string. When the
  table itself is missing all three are defaults.
\<close>

theorem getProductCardApiConfig_reads_table:
  "getProductCardApiConfig (e\<lparr>selectSettings := \<lambda>keys. Inr (selectWhereKeyIn table keys)\<rparr>) productId =
     ([SettingsRead [''cards_api_enabled_'' @ productId, ''cards_api_url_'' @ productId,
                     ''cards_api_token_'' @ productId]],
      Inr \<lparr>enabled = (stored table (''cards_api_enabled_'' @ productId) = Some (Some ''true'')),
           url = trim (case stored table (''cards_api_url_'' @ productId) of
                         Some (Some v) \<Rightarrow> v | _ \<Rightarrow> []),
           token = trim (case stored table (''cards_api_token_'' @ productId) of
                           Some (Some v) \<Rightarrow> v | _ \<Rightarrow> [])\<rparr>) \<and>
   (serialized x = Inr json \<and>
    str_includes (toLowerCase (messageOr x [] @ json)) ''no such table'' \<and>
    str_includes (toLowerCase (messageOr x [] @ json)) ''settings''
      \<longrightarrow> snd (getProductCardApiConfig (e\<lparr>selectSettings := \<lambda>keys. Inl x\<rparr>) productId) =
            Inr \<lparr>enabled = False, url = [], token = []\<rparr>)"
  using config_of_table[where e = e and table = table and productId = productId]
    config_of_missing_table[where x = x and json = json and e = e and productId = productId]
  by (simp add: keyOf_def)

lemma missing_table_text:
  "str_includes
     (toLowerCase (messageOr (Thrown (Some ''D1_ERROR: no such table: settings'') (Inr ''{}'')) []
        @ ''{}'')) ''no such table''"
  "str_includes
     (toLowerCase (messageOr (Thrown (Some ''D1_ERROR: no such table: settings'') (Inr ''{}'')) []
        @ ''{}'')) ''settings''"
  by code_simp+

theorem getProductCardApiConfig_reads_table_witness:
  "getProductCardApiConfig
     (scenarioEnv [] (Inr scenarioResponse) None
        \<lparr>selectSettings := \<lambda>keys. Inr (selectWhereKeyIn
           [(''cards_api_url_p1'', Some ''http://old''), (''cards_api_enabled_p2'', Some ''false''),
            (''cards_api_enabled_p1'', Some ''true''), (''cards_api_token_p1'', None),
            (''cards_api_url_p1'', Some '' https://x/y '')] keys)\<rparr>) ''p1'' =
     ([SettingsRead [''cards_api_enabled_p1'', ''cards_api_url_p1'', ''cards_api_token_p1'']],
      Inr \<lparr>enabled = True, url = ''https://x/y'', token = []\<rparr>) \<and>
   snd (getProductCardApiConfig
     (scenarioEnv [] (Inr scenarioResponse) None
        \<lparr>selectSettings := \<lambda>keys. Inl (Thrown (Some ''D1_ERROR: no such table: settings'') (Inr ''{}''))\<rparr>) ''p1'') =
     Inr \<lparr>enabled = False, url = [], token = []\<rparr>"
proof -
  have t: "trim '' https://x/y '' = ''https://x/y''"
    by (simp add: trim_def isWhiteSpace_def)
  show ?thesis
    using getProductCardApiConfig_reads_table
      [where e = "scenarioEnv [] (Inr scenarioResponse) None" and productId = "''p1''"
         and x = "Thrown (Some ''D1_ERROR: no such table: settings'') (Inr ''{}'')"
         and table = "[(''cards_api_url_p1'', Some ''http://old''), (''cards_api_enabled_p2'', Some ''false''),
            (''cards_api_enabled_p1'', Some ''true''), (''cards_api_token_p1'', None),
            (''cards_api_url_p1'', Some '' https://x/y '')]"]
      missing_table_text
    by (simp add: stored_def t)
qed

lemma stored_save:
  "stored (saveProductCardApiConfig table p config) (keyOf p Enabled) =
     Some (Some (if enabled config then ''true'' else ''false''))"
  "stored (saveProductCardApiConfig table p config) (keyOf p Url) = Some (Some (trim (url config)))"
  "stored (saveProductCardApiConfig table p config) (keyOf p Token) = Some (Some (trim (token config)))"
  by (simp_all add: saveProductCardApiConfig_def Let_def stored_setSetting)

text \<open>
  C9. After \<open>saveProductCardApiConfig\<close> the settings table holds, for the three keys of
  the product, \<open>true\<close> or \<open>false\<close>, the trimmed url and the trimmed token, and
  \<open>getProductCardApiConfig\<close> on that table returns
  \<open>{enabled: config.enabled, url: trim(config.url), token: trim(config.token)}\<close>.
\<close>

theorem save_then_get_config:
  "stored (saveProductCardApiConfig table productId config) (''cards_api_enabled_'' @ productId) =
     Some (Some (if enabled config then ''true'' else ''false'')) \<and>
   stored (saveProductCardApiConfig table productId config) (''cards_api_url_'' @ productId) =
     Some (Some (trim (url config))) \<and>
   stored (saveProductCardApiConfig table productId config) (''cards_api_token_'' @ productId) =
     Some (Some (trim (token config))) \<and>
   snd (getProductCardApiConfig
          (e\<lparr>selectSettings :=
               \<lambda>keys. Inr (selectWhereKeyIn (saveProductCardApiConfig table productId config) keys)\<rparr>)
          productId) =
     Inr \<lparr>enabled = enabled config, url = trim (url config), token = trim (token config)\<rparr>"
  using stored_save[of table productId config]
  by (simp add: config_of_table) (simp add: keyOf_def)

theorem save_then_get_config_witness:
  "snd (getProductCardApiConfig
          (scenarioEnv [] (Inr scenarioResponse) None
            \<lparr>selectSettings :=
               \<lambda>keys. Inr (selectWhereKeyIn
                 (saveProductCardApiConfig scenarioTable ''p1''
                    \<lparr>enabled = False, url = '' https://api/next  '', token = ''  tok''\<rparr>) keys)\<rparr>)
          ''p1'') =
     Inr \<lparr>enabled = False, url = ''https://api/next'', token = ''tok''\<rparr>"
proof -
  have t: "trim '' https://api/next  '' = ''https://api/next''" "trim ''  tok'' = ''tok''"
    by (simp_all add: trim_def isWhiteSpace_def)
  show ?thesis
    using save_then_get_config
      [where e = "scenarioEnv [] (Inr scenarioResponse) None" and productId = "''p1''"
         and table = scenarioTable
         and config = "\<lparr>enabled = False, url = '' https://api/next  '', token = ''  tok''\<rparr>"]
    by (simp add: t)
qed

subsection \<open>One pull\<close>

declare showNat.simps [simp del]

lemma config_log:
  "fst (getProductCardApiConfig e productId) =
     [SettingsRead [keyOf productId Enabled, keyOf productId Url, keyOf productId Token]]"
  by (simp add: getProductCardApiConfig_def getSettingsUncached_def bindIO_def tryIO_def
      dbSelectSettings_def returnIO_def liftIO_def Let_def split: sum.splits prod.splits)

lemma config_query_failed:
  assumes "selectSettings e [keyOf productId Enabled, keyOf productId Url, keyOf productId Token] = Inl q"
  shows "snd (getProductCardApiConfig e productId) =
     (case serialized q of
        Inl t \<Rightarrow> Inl t
      | Inr json \<Rightarrow>
          if str_includes (toLowerCase (messageOr q [] @ json)) ''no such table'' \<and>
             str_includes (toLowerCase (messageOr q [] @ json)) ''settings''
          then Inr \<lparr>enabled = False, url = [], token = []\<rparr>
          else Inl q)"
  using assms
  by (simp add: getProductCardApiConfig_def getSettingsUncached_def bindIO_def tryIO_def
      dbSelectSettings_def returnIO_def liftIO_def Let_def orEmpty_def split: sum.splits)

lemma config_query_answered:
  assumes "selectSettings e [keyOf productId Enabled, keyOf productId Url, keyOf productId Token] = Inr rows"
  shows "\<exists>config. snd (getProductCardApiConfig e productId) = Inr config"
  using assms
  by (simp add: getProductCardApiConfig_def getSettingsUncached_def bindIO_def tryIO_def
      dbSelectSettings_def returnIO_def liftIO_def Let_def)

lemma pull_config_rejects:
  "snd (getProductCardApiConfig e productId) = Inl x \<Longrightarrow>
   pullOneCardFromApi e productId =
     ([SettingsRead [keyOf productId Enabled, keyOf productId Url, keyOf productId Token]], Inl x)"
  using config_log[of e productId]
  by (cases "getProductCardApiConfig e productId") (simp add: pullOneCardFromApi_def bindIO_def)

lemma pull_unfold:
  assumes "snd (getProductCardApiConfig e productId) = Inr config"
  shows "pullOneCardFromApi e productId =
    (let l0 = [SettingsRead [keyOf productId Enabled, keyOf productId Url, keyOf productId Token]] in
     if \<not> enabled config then
       (l0, Inr \<lparr>ok = False, skipped = Some True, error = Some ''api_disabled'', cardKey = None\<rparr>)
     else if url config = [] then (l0, Inr (failure ''api_url_missing''))
     else case resolveApiUrl e (url config) of
        Inl _ \<Rightarrow> (l0, Inr (failure ''api_url_invalid''))
      | Inr u \<Rightarrow>
         (let l1 = l0 @ [HttpFetch (apiRequest u config)] in
          case fetch e (apiRequest u config) of
            Inl x \<Rightarrow> (l1, Inl x)
          | Inr resp \<Rightarrow>
             if \<not> response_ok resp then
               (l1, Inr (failure (''api_request_failed_'' @ showNat (status resp))))
             else case decodeBody resp of
               Inl x \<Rightarrow> (l1, Inl x)
             | Inr payload \<Rightarrow>
                if extractCardKey payload = [] then (l1, Inr (failure ''api_card_missing''))
                else
                  (l1 @ [CardInsert productId (extractCardKey payload)],
                   case insertCard e productId (extractCardKey payload) of
                     Some err \<Rightarrow>
                       (case isUniqueConstraintError err of
                          Inl t \<Rightarrow> Inl t
                        | Inr unique \<Rightarrow>
                            if unique then Inr (failure ''api_card_duplicate'')
                            else Inr (failure (messageOr err ''api_insert_failed'')))
                   | None \<Rightarrow> Inr \<lparr>ok = True, skipped = None, error = None,
                                      cardKey = Some (extractCardKey payload)\<rparr>)))"
  using assms config_log[of e productId]
  by (cases "getProductCardApiConfig e productId")
     (simp add: pullOneCardFromApi_def bindIO_def returnIO_def liftIO_def tryIO_def httpFetch_def
        dbInsertCard_def Let_def split: sum.splits option.splits)

lemma scenario_config:
  "getProductCardApiConfig (scenarioEnv scenarioTable answer inserted) ''p1'' =
     ([SettingsRead [''cards_api_enabled_p1'', ''cards_api_url_p1'', ''cards_api_token_p1'']],
      Inr \<lparr>enabled = True, url = ''https://x/y'', token = []\<rparr>)"
  by (simp add: getProductCardApiConfig_def getSettingsUncached_def bindIO_def tryIO_def
      dbSelectSettings_def returnIO_def Let_def scenarioEnv_def scenarioTable_def keyOf_def
      selectWhereKeyIn_def orEmpty_def trim_def isWhiteSpace_def)

lemma scenario_config_empty:
  "getProductCardApiConfig (scenarioEnv [] answer inserted) ''p1'' =
     ([SettingsRead [''cards_api_enabled_p1'', ''cards_api_url_p1'', ''cards_api_token_p1'']],
      Inr \<lparr>enabled = False, url = [], token = []\<rparr>)"
  by (simp add: getProductCardApiConfig_def getSettingsUncached_def bindIO_def tryIO_def
      dbSelectSettings_def returnIO_def Let_def scenarioEnv_def keyOf_def
      selectWhereKeyIn_def orEmpty_def)

lemma scenario_resolve:
  "resolveApiUrl (scenarioEnv table answer inserted) ''https://x/y'' = Inr ''https://x/y''"
  by (simp add: resolveApiUrl_def scenarioEnv_def trim_def isWhiteSpace_def)

lemma scenario_decode:
  "decodeBody scenarioResponse = Inr (JObj [(''data'', JObj [(''code'', JStr '' ABC123 '')])])"
  "decodeBody (scenarioResponse\<lparr>status := 404\<rparr>) =
     Inr (JObj [(''data'', JObj [(''code'', JStr '' ABC123 '')])])"
  "decodeBody (scenarioResponse\<lparr>jsonBody := Inl x\<rparr>) = Inl x"
proof -
  have "str_includes (toLowerCase ''application/json; charset=utf-8'') ''application/json''"
    by code_simp
  then show "decodeBody scenarioResponse =
      Inr (JObj [(''data'', JObj [(''code'', JStr '' ABC123 '')])])"
    "decodeBody (scenarioResponse\<lparr>status := 404\<rparr>) =
      Inr (JObj [(''data'', JObj [(''code'', JStr '' ABC123 '')])])"
    "decodeBody (scenarioResponse\<lparr>jsonBody := Inl x\<rparr>) = Inl x"
    by (simp_all add: decodeBody_def scenarioResponse_def orEmpty_def)
qed

lemma scenario_extract:
  "extractCardKey (JObj [(''data'', JObj [(''code'', JStr '' ABC123 '')])]) = ''ABC123''"
  by (simp add: getProp_def directKeys_def nestedKeys_def trim_def isWhiteSpace_def)

lemma scenario_ok:
  "response_ok scenarioResponse" "\<not> response_ok (scenarioResponse\<lparr>status := 404\<rparr>)"
  "response_ok (scenarioResponse\<lparr>jsonBody := Inl x\<rparr>)"
  by (simp_all add: response_ok_def scenarioResponse_def)

lemma scenario_status:
  "status scenarioResponse = 200"
  by (simp add: scenarioResponse_def)

lemma scenario_calls:
  "fetch (scenarioEnv table answer inserted) r = answer"
  "insertCard (scenarioEnv table answer inserted) p k = inserted"
  by (simp_all add: scenarioEnv_def)

lemma scenario_pull:
  "pullOneCardFromApi (scenarioEnv scenarioTable (Inr scenarioResponse) inserted) ''p1'' =
     ([SettingsRead [''cards_api_enabled_p1'', ''cards_api_url_p1'', ''cards_api_token_p1''],
       HttpFetch (apiRequest ''https://x/y'' \<lparr>enabled = True, url = ''https://x/y'', token = []\<rparr>),
       CardInsert ''p1'' ''ABC123''],
      case inserted of
        Some err \<Rightarrow>
          (case isUniqueConstraintError err of
             Inl t \<Rightarrow> Inl t
           | Inr unique \<Rightarrow>
               if unique then Inr (failure ''api_card_duplicate'')
               else Inr (failure (messageOr err ''api_insert_failed'')))
      | None \<Rightarrow> Inr \<lparr>ok = True, skipped = None, error = None, cardKey = Some ''ABC123''\<rparr>)"
proof -
  have c: "snd (getProductCardApiConfig (scenarioEnv scenarioTable (Inr scenarioResponse) inserted) ''p1'') =
      Inr \<lparr>enabled = True, url = ''https://x/y'', token = []\<rparr>"
    by (simp add: scenario_config)
  show ?thesis
    unfolding pull_unfold[OF c]
    by (simp add: scenario_resolve scenario_decode scenario_extract scenario_ok scenario_calls
          keyOf_def Let_def del: extractCardKey_shapes split: option.splits)
qed

lemma scenario_classify:
  "isUniqueConstraintError
     (Thrown (Some ''D1_ERROR: UNIQUE constraint failed: cards.card_key'') (Inr ''{}'')) = Inr True"
  "isUniqueConstraintError (Thrown (Some ''disk I/O error'') (Inr ''{}'')) = Inr False"
  "isUniqueConstraintError (Thrown (Some []) (Inr ''{}'')) = Inr False"
  "isUniqueConstraintError (Thrown None (Inr ''{}'')) = Inr False"
  "isUniqueConstraintError (Thrown (Some ''locked'') (Inl t)) = Inl t"
  by (code_simp, code_simp, code_simp, code_simp) (simp add: isUniqueConstraintError_def)

text \<open>
  C1, as the code has it. With the configuration resolved, \<open>pullOneCardFromApi\<close> returns at
  the first failing step, in this order: not enabled, \<open>api_disabled\<close> with \<open>skipped\<close>;
  url empty, \<open>api_url_missing\<close>; URL normalization fails, \<open>api_url_invalid\<close>; status
  outside 200-299, \<open>api_request_failed_<status>\<close>; extraction empty, \<open>api_card_missing\<close>;
  insert fails and \<open>isUniqueConstraintError\<close> answers true, \<open>api_card_duplicate\<close>; insert
  fails and it answers false, the error's message when it has a non-empty one and
  \<open>api_insert_failed\<close> when it has not; otherwise \<open>{ok: true, cardKey}\<close>. When the insert
  fails with an error that \<open>JSON.stringify\<close> cannot serialize, nothing is returned: the
  pull rejects with what \<open>JSON.stringify\<close> threw.
\<close>

theorem pullOneCardFromApi_steps:
  assumes "snd (getProductCardApiConfig e productId) = Inr config"
  shows
    "(\<not> enabled config \<longrightarrow>
        snd (pullOneCardFromApi e productId) =
          Inr \<lparr>ok = False, skipped = Some True, error = Some ''api_disabled'', cardKey = None\<rparr>) \<and>
     (enabled config \<and> url config = [] \<longrightarrow>
        snd (pullOneCardFromApi e productId) = Inr (failure ''api_url_missing'')) \<and>
     (enabled config \<and> url config \<noteq> [] \<and> resolveApiUrl e (url config) = Inl x \<longrightarrow>
        snd (pullOneCardFromApi e productId) = Inr (failure ''api_url_invalid'')) \<and>
     (enabled config \<and> url config \<noteq> [] \<and> resolveApiUrl e (url config) = Inr u \<and>
      fetch e (apiRequest u config) = Inr resp \<longrightarrow>
        (\<not> (200 \<le> status resp \<and> status resp \<le> 299) \<longrightarrow>
           snd (pullOneCardFromApi e productId) =
             Inr (failure (''api_request_failed_'' @ showNat (status resp)))) \<and>
        (200 \<le> status resp \<and> status resp \<le> 299 \<and> decodeBody resp = Inr payload \<longrightarrow>
           (extractCardKey payload = [] \<longrightarrow>
              snd (pullOneCardFromApi e productId) = Inr (failure ''api_card_missing'')) \<and>
           (extractCardKey payload \<noteq> [] \<longrightarrow>
              (insertCard e productId (extractCardKey payload) = Some err \<and>
               isUniqueConstraintError err = Inr True \<longrightarrow>
                 snd (pullOneCardFromApi e productId) = Inr (failure ''api_card_duplicate'')) \<and>
              (insertCard e productId (extractCardKey payload) = Some err \<and>
               isUniqueConstraintError err = Inr False \<longrightarrow>
                 snd (pullOneCardFromApi e productId) =
                   Inr (failure (case message err of
                                   None \<Rightarrow> ''api_insert_failed''
                                 | Some m \<Rightarrow> if m = [] then ''api_insert_failed'' else m))) \<and>
              (insertCard e productId (extractCardKey payload) = Some err \<and>
               serialized err = Inl t \<longrightarrow>
                 isUniqueConstraintError err = Inl t \<and>
                 snd (pullOneCardFromApi e productId) = Inl t) \<and>
              (insertCard e productId (extractCardKey payload) = None \<longrightarrow>
                 snd (pullOneCardFromApi e productId) =
                   Inr \<lparr>ok = True, skipped = None, error = None,
                        cardKey = Some (extractCardKey payload)\<rparr>))))"
  unfolding pull_unfold[OF assms]
  by (simp add: Let_def response_ok_def messageOr_def isUniqueConstraintError_def
      del: extractCardKey_shapes)

theorem pullOneCardFromApi_steps_witness:
  "snd (pullOneCardFromApi (scenarioEnv scenarioTable (Inr scenarioResponse) None) ''p1'') =
     Inr \<lparr>ok = True, skipped = None, error = None, cardKey = Some ''ABC123''\<rparr> \<and>
   snd (pullOneCardFromApi
          (scenarioEnv scenarioTable (Inr scenarioResponse)
             (Some (Thrown (Some ''disk I/O error'') (Inr ''{}'')))) ''p1'') =
     Inr \<lparr>ok = False, skipped = None, error = Some ''disk I/O error'', cardKey = None\<rparr> \<and>
   snd (pullOneCardFromApi
          (scenarioEnv scenarioTable (Inr scenarioResponse)
             (Some (Thrown (Some ''locked'') (Inl (Thrown (Some ''cyclic object value'') (Inr ''{}''))))))
          ''p1'') =
     Inl (Thrown (Some ''cyclic object value'') (Inr ''{}'')) \<and>
   snd (pullOneCardFromApi
          (scenarioEnv scenarioTable (Inr (scenarioResponse\<lparr>status := 404\<rparr>)) None) ''p1'') =
     Inr \<lparr>ok = False, skipped = None, error = Some ''api_request_failed_404'', cardKey = None\<rparr> \<and>
   snd (pullOneCardFromApi (scenarioEnv [] (Inr scenarioResponse) None) ''p1'') =
     Inr \<lparr>ok = False, skipped = Some True, error = Some ''api_disabled'', cardKey = None\<rparr>"
proof -
  let ?cfg = "\<lparr>enabled = True, url = ''https://x/y'', token = []\<rparr>"
  let ?payload = "JObj [(''data'', JObj [(''code'', JStr '' ABC123 '')])]"
  let ?err = "Thrown (Some ''disk I/O error'') (Inr ''{}'')"
  let ?t = "Thrown (Some ''cyclic object value'') (Inr ''{}'')"
  let ?cyc = "Thrown (Some ''locked'') (Inl ?t)"
  have c: "snd (getProductCardApiConfig (scenarioEnv scenarioTable answer inserted) ''p1'') = Inr ?cfg"
    for answer inserted
    by (simp add: scenario_config)
  have d: "snd (getProductCardApiConfig (scenarioEnv [] answer inserted) ''p1'') =
      Inr \<lparr>enabled = False, url = [], token = []\<rparr>" for answer inserted
    by (simp add: scenario_config_empty)
  have s: "showNat 404 = ''404''"
    by code_simp
  have "snd (pullOneCardFromApi (scenarioEnv scenarioTable (Inr scenarioResponse) None) ''p1'') =
     Inr \<lparr>ok = True, skipped = None, error = None, cardKey = Some ''ABC123''\<rparr>"
    using pullOneCardFromApi_steps[OF c, where u = "''https://x/y''" and resp = scenarioResponse
        and payload = ?payload and answer1 = "Inr scenarioResponse" and inserted1 = None]
    by (simp add: scenario_resolve scenario_decode scenario_extract scenario_calls
        scenario_status del: extractCardKey_shapes)
  moreover have "snd (pullOneCardFromApi
          (scenarioEnv scenarioTable (Inr scenarioResponse) (Some ?err)) ''p1'') =
     Inr \<lparr>ok = False, skipped = None, error = Some ''disk I/O error'', cardKey = None\<rparr>"
    using pullOneCardFromApi_steps[OF c, where u = "''https://x/y''" and resp = scenarioResponse
        and payload = ?payload and answer1 = "Inr scenarioResponse" and inserted1 = "Some ?err"
        and err = ?err] scenario_classify(2)
    by (simp add: scenario_resolve scenario_decode scenario_extract scenario_calls
        scenario_status failure_def del: extractCardKey_shapes)
  moreover have "snd (pullOneCardFromApi
          (scenarioEnv scenarioTable (Inr scenarioResponse) (Some ?cyc)) ''p1'') = Inl ?t"
    using pullOneCardFromApi_steps[OF c, where u = "''https://x/y''" and resp = scenarioResponse
        and payload = ?payload and answer1 = "Inr scenarioResponse" and inserted1 = "Some ?cyc"
        and err = ?cyc and t = ?t]
    by (simp add: scenario_resolve scenario_decode scenario_extract scenario_calls
        scenario_status del: extractCardKey_shapes)
  moreover have "snd (pullOneCardFromApi
          (scenarioEnv scenarioTable (Inr (scenarioResponse\<lparr>status := 404\<rparr>)) None) ''p1'') =
     Inr \<lparr>ok = False, skipped = None, error = Some ''api_request_failed_404'', cardKey = None\<rparr>"
    using pullOneCardFromApi_steps[OF c, where u = "''https://x/y''"
        and resp = "scenarioResponse\<lparr>status := 404\<rparr>"
        and answer1 = "Inr (scenarioResponse\<lparr>status := 404\<rparr>)" and inserted1 = None] s
    by (simp add: scenario_resolve scenario_calls failure_def)
  moreover have "snd (pullOneCardFromApi (scenarioEnv [] (Inr scenarioResponse) None) ''p1'') =
     Inr \<lparr>ok = False, skipped = Some True, error = Some ''api_disabled'', cardKey = None\<rparr>"
    using pullOneCardFromApi_steps[OF d, where answer1 = "Inr scenarioResponse" and inserted1 = None]
    by simp
  ultimately show ?thesis
    by simp
qed

theorem insert_failure_without_message_counterexample:
  "insertCard (scenarioEnv scenarioTable (Inr scenarioResponse)
                 (Some (Thrown (Some []) (Inr ''{}'')))) ''p1'' ''ABC123'' =
     Some (Thrown (Some []) (Inr ''{}'')) \<and>
   isUniqueConstraintError (Thrown (Some []) (Inr ''{}'')) = Inr False \<and>
   snd (pullOneCardFromApi
          (scenarioEnv scenarioTable (Inr scenarioResponse)
             (Some (Thrown (Some []) (Inr ''{}'')))) ''p1'') =
     Inr \<lparr>ok = False, skipped = None, error = Some ''api_insert_failed'', cardKey = None\<rparr> \<and>
   snd (pullOneCardFromApi
          (scenarioEnv scenarioTable (Inr scenarioResponse)
             (Some (Thrown (Some []) (Inr ''{}'')))) ''p1'') \<noteq>
     Inr \<lparr>ok = False, skipped = None, error = message (Thrown (Some []) (Inr ''{}'')),
          cardKey = None\<rparr>"
  using scenario_classify(3)
  by (simp add: scenario_pull scenario_calls failure_def messageOr_def)

lemma pull_rejects_iff:
  assumes "snd (getProductCardApiConfig e productId) = Inr config"
  shows "snd (pullOneCardFromApi e productId) = Inl x \<longleftrightarrow>
     enabled config \<and> url config \<noteq> [] \<and>
     (\<exists>u. resolveApiUrl e (url config) = Inr u \<and>
        (fetch e (apiRequest u config) = Inl x \<or>
         (\<exists>resp. fetch e (apiRequest u config) = Inr resp \<and> response_ok resp \<and>
            (decodeBody resp = Inl x \<or>
             (\<exists>payload err. decodeBody resp = Inr payload \<and> extractCardKey payload \<noteq> [] \<and>
                insertCard e productId (extractCardKey payload) = Some err \<and>
                serialized err = Inl x)))))"
  unfolding pull_unfold[OF assms]
  by (auto simp: Let_def isUniqueConstraintError_def simp del: extractCardKey_shapes
      split: if_splits sum.splits option.splits)

text \<open>
  C2, as the code has it. \<open>pullOneCardFromApi\<close> rejects, with the value \<open>x\<close>, in these
  cases and in no other. The settings query throws: \<open>x\<close> is what \<open>JSON.stringify\<close> throws
  on the query's error, or it is the query's error itself when that can be serialized and
  its text does not name a missing settings table. Or the configuration is resolved,
  enabled, with a url that normalizes, and: \<open>fetch\<close> rejects with \<open>x\<close>; or decoding
  the body of a 2xx response rejects with \<open>x\<close>; or the insert fails with an error on which
  \<open>JSON.stringify\<close> throws \<open>x\<close>. In every other case an outcome is returned.
\<close>

theorem pullOneCardFromApi_rejections:
  "snd (pullOneCardFromApi e productId) = Inl x \<longleftrightarrow>
     (\<exists>q. selectSettings e [keyOf productId Enabled, keyOf productId Url, keyOf productId Token] =
            Inl q \<and>
          (serialized q = Inl x \<or>
           (q = x \<and>
            (\<exists>json. serialized q = Inr json \<and>
               \<not> (str_includes (toLowerCase (messageOr q [] @ json)) ''no such table'' \<and>
                  str_includes (toLowerCase (messageOr q [] @ json)) ''settings''))))) \<or>
     (\<exists>config u.
        snd (getProductCardApiConfig e productId) = Inr config \<and>
        enabled config \<and> url config \<noteq> [] \<and> resolveApiUrl e (url config) = Inr u \<and>
        (fetch e (apiRequest u config) = Inl x \<or>
         (\<exists>resp. fetch e (apiRequest u config) = Inr resp \<and> response_ok resp \<and>
            (decodeBody resp = Inl x \<or>
             (\<exists>payload err. decodeBody resp = Inr payload \<and> extractCardKey payload \<noteq> [] \<and>
                insertCard e productId (extractCardKey payload) = Some err \<and>
                serialized err = Inl x)))))"
  (is "?L \<longleftrightarrow> ?Q \<or> ?P")
proof (cases "snd (getProductCardApiConfig e productId)")
  case (Inl y)
  then have np: "\<not> ?P"
    by simp
  from pull_config_rejects[OF Inl] have l: "?L \<longleftrightarrow> y = x"
    by simp
  have q: "?Q \<longleftrightarrow> y = x"
  proof (cases "selectSettings e [keyOf productId Enabled, keyOf productId Url, keyOf productId Token]")
    case (Inl q)
    from config_query_failed[OF Inl] \<open>snd (getProductCardApiConfig e productId) = Inl y\<close>
    show ?thesis
      unfolding Inl by (auto split: sum.splits if_splits)
  next
    case (Inr rows)
    from config_query_answered[OF Inr] \<open>snd (getProductCardApiConfig e productId) = Inl y\<close>
    show ?thesis
      by simp
  qed
  from l q np show ?thesis
    by (simp only: simp_thms)
next
  case (Inr config)
  have nq: "\<not> ?Q"
  proof (cases "selectSettings e [keyOf productId Enabled, keyOf productId Url, keyOf productId Token]")
    case (Inl q)
    from config_query_failed[OF Inl] Inr show ?thesis
      unfolding Inl by (auto split: sum.splits if_splits)
  next
    case (Inr rows)
    then show ?thesis
      by simp
  qed
  from pull_rejects_iff[OF Inr, of x] Inr have p: "?L \<longleftrightarrow> ?P"
    by auto
  from p nq show ?thesis
    by (simp only: simp_thms)
qed

lemma scenario_query_text:
  "\<not> (str_includes (toLowerCase (messageOr (Thrown (Some ''connection lost'') (Inr ''{}'')) []
           @ ''{}'')) ''no such table'' \<and>
      str_includes (toLowerCase (messageOr (Thrown (Some ''connection lost'') (Inr ''{}'')) []
           @ ''{}'')) ''settings'')"
  by code_simp

theorem pullOneCardFromApi_rejections_witness:
  "snd (pullOneCardFromApi
          (scenarioEnv scenarioTable (Inr scenarioResponse) None
             \<lparr>selectSettings := \<lambda>keys. Inl (Thrown (Some ''connection lost'') (Inr ''{}''))\<rparr>)
          ''p1'') =
     Inl (Thrown (Some ''connection lost'') (Inr ''{}'')) \<and>
   snd (pullOneCardFromApi
          (scenarioEnv scenarioTable
             (Inr (scenarioResponse\<lparr>jsonBody := Inl (Thrown (Some ''Unexpected token'') (Inr ''{}''))\<rparr>))
             None) ''p1'') =
     Inl (Thrown (Some ''Unexpected token'') (Inr ''{}'')) \<and>
   snd (pullOneCardFromApi (scenarioEnv scenarioTable (Inr scenarioResponse) None) ''p1'') \<noteq>
     Inl (Thrown (Some ''Unexpected token'') (Inr ''{}''))"
proof -
  let ?q = "Thrown (Some ''connection lost'') (Inr ''{}'')"
  let ?x = "Thrown (Some ''Unexpected token'') (Inr ''{}'')"
  let ?e1 = "scenarioEnv scenarioTable (Inr scenarioResponse) None \<lparr>selectSettings := \<lambda>keys. Inl ?q\<rparr>"
  let ?e2 = "scenarioEnv scenarioTable (Inr (scenarioResponse\<lparr>jsonBody := Inl ?x\<rparr>)) None"
  let ?e3 = "scenarioEnv scenarioTable (Inr scenarioResponse) None"
  let ?cfg = "\<lparr>enabled = True, url = ''https://x/y'', token = []\<rparr>"
  have c: "snd (getProductCardApiConfig (scenarioEnv scenarioTable answer inserted) ''p1'') = Inr ?cfg"
    for answer inserted
    by (simp add: scenario_config)
  have "snd (pullOneCardFromApi ?e1 ''p1'') = Inl ?q"
    using pullOneCardFromApi_rejections[where e = ?e1 and productId = "''p1''" and x = ?q]
      scenario_query_text
    by simp
  moreover have "snd (pullOneCardFromApi ?e2 ''p1'') = Inl ?x"
  proof -
    have "\<exists>config u.
        snd (getProductCardApiConfig ?e2 ''p1'') = Inr config \<and>
        enabled config \<and> url config \<noteq> [] \<and> resolveApiUrl ?e2 (url config) = Inr u \<and>
        (fetch ?e2 (apiRequest u config) = Inl ?x \<or>
         (\<exists>resp. fetch ?e2 (apiRequest u config) = Inr resp \<and> response_ok resp \<and>
            (decodeBody resp = Inl ?x \<or>
             (\<exists>payload err. decodeBody resp = Inr payload \<and> extractCardKey payload \<noteq> [] \<and>
                insertCard ?e2 ''p1'' (extractCardKey payload) = Some err \<and>
                serialized err = Inl ?x))))"
      by (rule exI[of _ ?cfg], rule exI[of _ "''https://x/y''"])
         (simp add: c scenario_resolve scenario_calls scenario_ok scenario_decode)
    with pullOneCardFromApi_rejections[where e = ?e2 and productId = "''p1''" and x = ?x]
    show ?thesis
      by blast
  qed
  moreover have "snd (pullOneCardFromApi ?e3 ''p1'') \<noteq> Inl ?x"
    using pullOneCardFromApi_rejections[where e = ?e3 and productId = "''p1''" and x = ?x]
    by (simp add: scenario_pull)
  ultimately show ?thesis
    by simp
qed

theorem fetch_rejection_counterexample:
  "snd (pullOneCardFromApi
          (scenarioEnv scenarioTable (Inl (Thrown (Some ''fetch failed'') (Inr ''{}''))) None) ''p1'') =
     Inl (Thrown (Some ''fetch failed'') (Inr ''{}''))"
proof -
  let ?e = "scenarioEnv scenarioTable (Inl (Thrown (Some ''fetch failed'') (Inr ''{}''))) None"
  have c: "snd (getProductCardApiConfig ?e ''p1'') =
      Inr \<lparr>enabled = True, url = ''https://x/y'', token = []\<rparr>"
    by (simp add: scenario_config)
  show ?thesis
    unfolding pull_unfold[OF c]
    by (simp add: scenario_resolve scenario_calls Let_def)
qed

lemma failure_fields [simp]:
  "ok (failure c) = False" "skipped (failure c) = None" "error (failure c) = Some c"
  "cardKey (failure c) = None"
  by (simp_all add: failure_def)

lemma pull_outcome_sources:
  assumes "snd (pullOneCardFromApi e productId) = Inr out"
  shows "fst (pullOneCardFromApi e productId) =
       [SettingsRead [keyOf productId Enabled, keyOf productId Url, keyOf productId Token]] \<or>
     (\<exists>n. error out = Some (''api_request_failed_'' @ n)) \<or>
     error out = Some ''api_card_missing'' \<or>
     error out = Some ''api_card_duplicate'' \<or>
     (\<exists>key err. insertCard e productId key = Some err \<and>
        error out = Some (messageOr err ''api_insert_failed'')) \<or>
     error out = None"
proof (cases "snd (getProductCardApiConfig e productId)")
  case (Inl y)
  from pull_config_rejects[OF Inl] show ?thesis
    by simp
next
  case (Inr config)
  from assms show ?thesis
    unfolding pull_unfold[OF Inr]
    by (auto simp: Let_def simp del: extractCardKey_shapes
        split: if_splits sum.splits option.splits; blast)
qed

text \<open>
  C6. When \<open>pullOneCardFromApi\<close> returns one of the configuration-error outcomes, at the
  check that the configuration is enabled, that the url is not empty or that the url
  normalizes, the only call it has issued is the settings query: no fetch and no insert.
  An outcome with \<open>skipped\<close> set comes from there alone, and so does every outcome with
  one of the three error codes unless a failed insert carries that very text as its
  message.
\<close>

theorem config_errors_issue_no_call:
  "(snd (getProductCardApiConfig e productId) = Inr config \<and>
    (\<not> enabled config \<or> url config = [] \<or> resolveApiUrl e (url config) = Inl x)
      \<longrightarrow> fst (pullOneCardFromApi e productId) =
            [SettingsRead [keyOf productId Enabled, keyOf productId Url, keyOf productId Token]] \<and>
          snd (pullOneCardFromApi e productId) =
            Inr (if \<not> enabled config
                 then \<lparr>ok = False, skipped = Some True, error = Some ''api_disabled'',
                       cardKey = None\<rparr>
                 else if url config = [] then failure ''api_url_missing''
                 else failure ''api_url_invalid'')) \<and>
   (snd (pullOneCardFromApi e productId) = Inr out \<and> skipped out = Some True
      \<longrightarrow> error out = Some ''api_disabled'' \<and>
          fst (pullOneCardFromApi e productId) =
            [SettingsRead [keyOf productId Enabled, keyOf productId Url, keyOf productId Token]]) \<and>
   (snd (pullOneCardFromApi e productId) = Inr out \<and> error out = Some c \<and>
    c \<in> set [''api_disabled'', ''api_url_missing'', ''api_url_invalid''] \<and>
    (\<forall>key err. insertCard e productId key = Some err \<longrightarrow> message err \<noteq> Some c)
      \<longrightarrow> fst (pullOneCardFromApi e productId) =
            [SettingsRead [keyOf productId Enabled, keyOf productId Url, keyOf productId Token]])"
proof (intro conjI impI)
  assume h: "snd (getProductCardApiConfig e productId) = Inr config \<and>
    (\<not> enabled config \<or> url config = [] \<or> resolveApiUrl e (url config) = Inl x)"
  then have c: "snd (getProductCardApiConfig e productId) = Inr config"
    by simp
  from h consider (off) "\<not> enabled config"
    | (missing) "enabled config" "url config = []"
    | (invalid) "enabled config" "url config \<noteq> []" "resolveApiUrl e (url config) = Inl x"
    by blast
  then have "pullOneCardFromApi e productId =
      ([SettingsRead [keyOf productId Enabled, keyOf productId Url, keyOf productId Token]],
       Inr (if \<not> enabled config
            then \<lparr>ok = False, skipped = Some True, error = Some ''api_disabled'', cardKey = None\<rparr>
            else if url config = [] then failure ''api_url_missing''
            else failure ''api_url_invalid''))"
  proof cases
    case off
    then show ?thesis
      unfolding pull_unfold[OF c] by (simp add: Let_def)
  next
    case missing
    then show ?thesis
      unfolding pull_unfold[OF c] by (simp add: Let_def)
  next
    case invalid
    then show ?thesis
      unfolding pull_unfold[OF c] by (simp add: Let_def)
  qed
  then show "fst (pullOneCardFromApi e productId) =
      [SettingsRead [keyOf productId Enabled, keyOf productId Url, keyOf productId Token]]"
    and "snd (pullOneCardFromApi e productId) =
      Inr (if \<not> enabled config
           then \<lparr>ok = False, skipped = Some True, error = Some ''api_disabled'', cardKey = None\<rparr>
           else if url config = [] then failure ''api_url_missing''
           else failure ''api_url_invalid'')"
    by simp_all
next
  assume h: "snd (pullOneCardFromApi e productId) = Inr out \<and> skipped out = Some True"
  have "error out = Some ''api_disabled'' \<and>
      fst (pullOneCardFromApi e productId) =
        [SettingsRead [keyOf productId Enabled, keyOf productId Url, keyOf productId Token]]"
  proof (cases "snd (getProductCardApiConfig e productId)")
    case (Inl y)
    from pull_config_rejects[OF Inl] h show ?thesis
      by simp
  next
    case (Inr config)
    from h show ?thesis
      unfolding pull_unfold[OF Inr]
      by (auto simp: Let_def simp del: extractCardKey_shapes
          split: if_splits sum.splits option.splits)
  qed
  then show "error out = Some ''api_disabled''"
    and "fst (pullOneCardFromApi e productId) =
      [SettingsRead [keyOf productId Enabled, keyOf productId Url, keyOf productId Token]]"
    by simp_all
next
  assume h: "snd (pullOneCardFromApi e productId) = Inr out \<and> error out = Some c \<and>
    c \<in> set [''api_disabled'', ''api_url_missing'', ''api_url_invalid''] \<and>
    (\<forall>key err. insertCard e productId key = Some err \<longrightarrow> message err \<noteq> Some c)"
  then have o: "snd (pullOneCardFromApi e productId) = Inr out" and c: "error out = Some c"
    and three: "c = ''api_disabled'' \<or> c = ''api_url_missing'' \<or> c = ''api_url_invalid''"
    and quiet: "\<And>key err. insertCard e productId key = Some err \<Longrightarrow> message err \<noteq> Some c"
    by auto
  have m: "messageOr err ''api_insert_failed'' = c \<Longrightarrow> message err = Some c" for err
    using three by (auto simp: messageOr_def split: option.splits if_splits)
  have "\<not> (\<exists>n. error out = Some (''api_request_failed_'' @ n))"
    "error out \<noteq> Some ''api_card_missing''" "error out \<noteq> Some ''api_card_duplicate''"
    "error out \<noteq> None"
    using c three by auto
  moreover have "\<not> (\<exists>key err. insertCard e productId key = Some err \<and>
        error out = Some (messageOr err ''api_insert_failed''))"
    using c m quiet by fastforce
  ultimately show "fst (pullOneCardFromApi e productId) =
      [SettingsRead [keyOf productId Enabled, keyOf productId Url, keyOf productId Token]]"
    using pull_outcome_sources[OF o] by meson
qed

theorem config_errors_issue_no_call_witness:
  "pullOneCardFromApi (scenarioEnv [] (Inr scenarioResponse) None) ''p1'' =
     ([SettingsRead [''cards_api_enabled_p1'', ''cards_api_url_p1'', ''cards_api_token_p1'']],
      Inr \<lparr>ok = False, skipped = Some True, error = Some ''api_disabled'', cardKey = None\<rparr>) \<and>
   pullOneCardFromApi
     (scenarioEnv [(''cards_api_enabled_p1'', Some ''true''), (''cards_api_url_p1'', Some ''x/y'')]
        (Inr scenarioResponse) None) ''p1'' =
     ([SettingsRead [''cards_api_enabled_p1'', ''cards_api_url_p1'', ''cards_api_token_p1'']],
      Inr \<lparr>ok = False, skipped = None, error = Some ''api_url_invalid'', cardKey = None\<rparr>)"
proof -
  let ?e = "scenarioEnv [] (Inr scenarioResponse) None"
  let ?off = "\<lparr>enabled = False, url = [], token = []\<rparr>"
  let ?f = "scenarioEnv [(''cards_api_enabled_p1'', Some ''true''), (''cards_api_url_p1'', Some ''x/y'')]
        (Inr scenarioResponse) None"
  let ?bad = "\<lparr>enabled = True, url = ''x/y'', token = []\<rparr>"
  let ?x = "Thrown (Some ''Invalid URL'') (Inr ''{}'')"
  have c: "snd (getProductCardApiConfig ?e ''p1'') = Inr ?off \<and>
      (\<not> enabled ?off \<or> url ?off = [] \<or> resolveApiUrl ?e (url ?off) = Inl y)" for y
    by (simp add: scenario_config_empty)
  have d: "snd (getProductCardApiConfig ?f ''p1'') = Inr ?bad \<and>
      (\<not> enabled ?bad \<or> url ?bad = [] \<or> resolveApiUrl ?f (url ?bad) = Inl ?x)"
    by (simp add: getProductCardApiConfig_def getSettingsUncached_def bindIO_def tryIO_def
      dbSelectSettings_def returnIO_def Let_def scenarioEnv_def keyOf_def
      selectWhereKeyIn_def orEmpty_def trim_def isWhiteSpace_def resolveApiUrl_def)
  from config_errors_issue_no_call[where e = ?e and productId = "''p1''" and config = ?off] c
  have "fst (pullOneCardFromApi ?e ''p1'') =
          [SettingsRead [''cards_api_enabled_p1'', ''cards_api_url_p1'', ''cards_api_token_p1'']] \<and>
        snd (pullOneCardFromApi ?e ''p1'') =
          Inr \<lparr>ok = False, skipped = Some True, error = Some ''api_disabled'', cardKey = None\<rparr>"
    by (simp add: keyOf_def)
  moreover
  from config_errors_issue_no_call[where e = ?f and productId = "''p1''" and config = ?bad and x = ?x] d
  have "fst (pullOneCardFromApi ?f ''p1'') =
          [SettingsRead [''cards_api_enabled_p1'', ''cards_api_url_p1'', ''cards_api_token_p1'']] \<and>
        snd (pullOneCardFromApi ?f ''p1'') =
          Inr \<lparr>ok = False, skipped = None, error = Some ''api_url_invalid'', cardKey = None\<rparr>"
    by (simp add: keyOf_def failure_def)
  ultimately show ?thesis
    by (simp add: prod_eq_iff)
qed

lemma pull_insert_attempted:
  assumes "CardInsert p key \<in> set (fst (pullOneCardFromApi e productId))"
  shows "p = productId \<and> key \<noteq> [] \<and> trim key = key \<and>
     (\<forall>p' k'. CardInsert p' k' \<in> set (fst (pullOneCardFromApi e productId))
         \<longrightarrow> p' = productId \<and> k' = key) \<and>
     snd (pullOneCardFromApi e productId) =
       (case insertCard e productId key of
          Some err \<Rightarrow>
            (case isUniqueConstraintError err of
               Inl t \<Rightarrow> Inl t
             | Inr unique \<Rightarrow>
                 if unique then Inr (failure ''api_card_duplicate'')
                 else Inr (failure (messageOr err ''api_insert_failed'')))
        | None \<Rightarrow> Inr \<lparr>ok = True, skipped = None, error = None, cardKey = Some key\<rparr>)"
proof (cases "snd (getProductCardApiConfig e productId)")
  case (Inl y)
  from pull_config_rejects[OF Inl] assms show ?thesis
    by simp
next
  case (Inr config)
  from assms show ?thesis
    unfolding pull_unfold[OF Inr]
    by (auto simp: Let_def extract_trimmed simp del: extractCardKey_shapes
        split: if_splits sum.splits option.splits)
qed

lemma pull_success_insert:
  assumes "snd (pullOneCardFromApi e productId) = Inr out" and "ok out"
  shows "\<exists>key. cardKey out = Some key \<and>
     CardInsert productId key \<in> set (fst (pullOneCardFromApi e productId))"
proof (cases "snd (getProductCardApiConfig e productId)")
  case (Inl y)
  from pull_config_rejects[OF Inl] assms show ?thesis
    by simp
next
  case (Inr config)
  from assms show ?thesis
    unfolding pull_unfold[OF Inr]
    by (auto simp: Let_def simp del: extractCardKey_shapes
        split: if_splits sum.splits option.splits)
qed

text \<open>
  C8, as the code has it. When the insert fails with an error that \<open>JSON.stringify\<close> can
  serialize, \<open>pullOneCardFromApi\<close> answers \<open>api_card_duplicate\<close> exactly when the
  lower-cased concatenation of the error's message and its serialized form contains
  \<open>unique\<close> or \<open>constraint failed\<close>. Every other such failure answers with the error's
  message when that is not empty, and with \<open>api_insert_failed\<close> when the error has no
  message or an empty one. When \<open>JSON.stringify\<close> throws on the error the failure is not
  classified: the pull rejects with what was thrown.
\<close>

theorem insert_failure_classification:
  assumes "CardInsert p key \<in> set (fst (pullOneCardFromApi e productId))"
    and "insertCard e p key = Some err"
  shows
    "(serialized err = Inr json \<longrightarrow>
        (isUniqueConstraintError err = Inr True \<longleftrightarrow>
           (\<exists>ps ss. toLowerCase (orEmpty (message err) @ json) = ps @ ''unique'' @ ss) \<or>
           (\<exists>ps ss. toLowerCase (orEmpty (message err) @ json) = ps @ ''constraint failed'' @ ss)) \<and>
        (isUniqueConstraintError err = Inr True \<or> isUniqueConstraintError err = Inr False)) \<and>
     (isUniqueConstraintError err = Inr True \<longrightarrow>
        snd (pullOneCardFromApi e productId) = Inr (failure ''api_card_duplicate'')) \<and>
     (isUniqueConstraintError err = Inr False \<and> message err = Some m \<and> m \<noteq> [] \<longrightarrow>
        snd (pullOneCardFromApi e productId) = Inr (failure m)) \<and>
     (isUniqueConstraintError err = Inr False \<and> (message err = None \<or> message err = Some []) \<longrightarrow>
        snd (pullOneCardFromApi e productId) = Inr (failure ''api_insert_failed'')) \<and>
     (serialized err = Inl t \<longrightarrow>
        isUniqueConstraintError err = Inl t \<and> snd (pullOneCardFromApi e productId) = Inl t)"
proof -
  from pull_insert_attempted[OF assms(1)] assms(2)
  have r: "snd (pullOneCardFromApi e productId) =
      (case isUniqueConstraintError err of
         Inl t \<Rightarrow> Inl t
       | Inr unique \<Rightarrow>
           if unique then Inr (failure ''api_card_duplicate'')
           else Inr (failure (messageOr err ''api_insert_failed'')))"
    by simp
  have t: "messageOr err [] = orEmpty (message err)"
    by (simp add: messageOr_def orEmpty_def split: option.splits)
  have u: "serialized err = Inr json \<longrightarrow>
        (isUniqueConstraintError err = Inr True \<longleftrightarrow>
           (\<exists>ps ss. toLowerCase (orEmpty (message err) @ json) = ps @ ''unique'' @ ss) \<or>
           (\<exists>ps ss. toLowerCase (orEmpty (message err) @ json) = ps @ ''constraint failed'' @ ss)) \<and>
        (isUniqueConstraintError err = Inr True \<or> isUniqueConstraintError err = Inr False)"
    by (simp add: isUniqueConstraintError_def Let_def t str_includes_iff) blast
  have v: "serialized err = Inl t \<longrightarrow> isUniqueConstraintError err = Inl t"
    by (simp add: isUniqueConstraintError_def)
  from r have o:
    "isUniqueConstraintError err = Inr True \<longrightarrow>
        snd (pullOneCardFromApi e productId) = Inr (failure ''api_card_duplicate'')"
    "isUniqueConstraintError err = Inr False \<and> message err = Some m \<and> m \<noteq> [] \<longrightarrow>
        snd (pullOneCardFromApi e productId) = Inr (failure m)"
    "isUniqueConstraintError err = Inr False \<and> (message err = None \<or> message err = Some []) \<longrightarrow>
        snd (pullOneCardFromApi e productId) = Inr (failure ''api_insert_failed'')"
    "isUniqueConstraintError err = Inl t \<longrightarrow> snd (pullOneCardFromApi e productId) = Inl t"
    by (auto simp: messageOr_def)
  from u v o show ?thesis
    by blast
qed

theorem insert_failure_classification_witness:
  "snd (pullOneCardFromApi
          (scenarioEnv scenarioTable (Inr scenarioResponse)
             (Some (Thrown (Some ''D1_ERROR: UNIQUE constraint failed: cards.card_key'')
                           (Inr ''{}'')))) ''p1'') =
     Inr \<lparr>ok = False, skipped = None, error = Some ''api_card_duplicate'', cardKey = None\<rparr> \<and>
   snd (pullOneCardFromApi
          (scenarioEnv scenarioTable (Inr scenarioResponse)
             (Some (Thrown (Some ''disk I/O error'') (Inr ''{}'')))) ''p1'') =
     Inr \<lparr>ok = False, skipped = None, error = Some ''disk I/O error'', cardKey = None\<rparr> \<and>
   snd (pullOneCardFromApi
          (scenarioEnv scenarioTable (Inr scenarioResponse)
             (Some (Thrown (Some ''locked'') (Inl (Thrown (Some ''cyclic object value'') (Inr ''{}''))))))
          ''p1'') =
     Inl (Thrown (Some ''cyclic object value'') (Inr ''{}''))"
proof -
  let ?dup = "Thrown (Some ''D1_ERROR: UNIQUE constraint failed: cards.card_key'') (Inr ''{}'')"
  let ?io = "Thrown (Some ''disk I/O error'') (Inr ''{}'')"
  let ?t = "Thrown (Some ''cyclic object value'') (Inr ''{}'')"
  let ?cyc = "Thrown (Some ''locked'') (Inl ?t)"
  have a: "CardInsert ''p1'' ''ABC123'' \<in>
      set (fst (pullOneCardFromApi (scenarioEnv scenarioTable (Inr scenarioResponse) inserted) ''p1''))"
    for inserted
    by (simp add: scenario_pull)
  have i: "insertCard (scenarioEnv scenarioTable (Inr scenarioResponse) (Some x)) ''p1'' ''ABC123'' =
      Some x" for x
    by (simp add: scenario_calls)
  from insert_failure_classification[OF a i, of ?dup] scenario_classify(1)
  have "snd (pullOneCardFromApi
          (scenarioEnv scenarioTable (Inr scenarioResponse) (Some ?dup)) ''p1'') =
     Inr \<lparr>ok = False, skipped = None, error = Some ''api_card_duplicate'', cardKey = None\<rparr>"
    by (simp add: failure_def)
  moreover from insert_failure_classification[OF a i, of ?io _ "''disk I/O error''"]
    scenario_classify(2)
  have "snd (pullOneCardFromApi
          (scenarioEnv scenarioTable (Inr scenarioResponse) (Some ?io)) ''p1'') =
     Inr \<lparr>ok = False, skipped = None, error = Some ''disk I/O error'', cardKey = None\<rparr>"
    by (simp add: failure_def)
  moreover from insert_failure_classification[OF a i, of ?cyc _ _ ?t]
  have "snd (pullOneCardFromApi
          (scenarioEnv scenarioTable (Inr scenarioResponse) (Some ?cyc)) ''p1'') = Inl ?t"
    by simp
  ultimately show ?thesis
    by simp
qed

theorem insert_failure_fallback_counterexample:
  "insertCard (scenarioEnv scenarioTable (Inr scenarioResponse)
                 (Some (Thrown None (Inr ''{}'')))) ''p1'' ''ABC123'' =
     Some (Thrown None (Inr ''{}'')) \<and>
   isUniqueConstraintError (Thrown None (Inr ''{}'')) = Inr False \<and>
   pullOneCardFromApi
     (scenarioEnv scenarioTable (Inr scenarioResponse) (Some (Thrown None (Inr ''{}'')))) ''p1'' =
     ([SettingsRead [''cards_api_enabled_p1'', ''cards_api_url_p1'', ''cards_api_token_p1''],
       HttpFetch (apiRequest ''https://x/y'' \<lparr>enabled = True, url = ''https://x/y'', token = []\<rparr>),
       CardInsert ''p1'' ''ABC123''],
      Inr \<lparr>ok = False, skipped = None, error = Some ''api_insert_failed'', cardKey = None\<rparr>) \<and>
   error \<lparr>ok = False, skipped = None, error = Some ''api_insert_failed'', cardKey = None\<rparr> \<noteq>
     message (Thrown None (Inr ''{}''))"
  using scenario_classify(4)
  by (simp add: scenario_pull scenario_calls failure_def messageOr_def)

text \<open>
  C10. When \<open>pullOneCardFromApi\<close> returns \<open>{ok: true, cardKey}\<close> the card key is not
  empty and is its own trim, the insert was called once, with the product id given and
  that card key, and it succeeded. Whatever \<open>extractCardKey\<close> returns is its own trim.
\<close>

theorem pull_success_card:
  "(pullOneCardFromApi e productId = (log, Inr out) \<and> ok out \<longrightarrow>
      (\<exists>key. cardKey out = Some key \<and> key \<noteq> [] \<and> trim key = key \<and>
             CardInsert productId key \<in> set log \<and>
             (\<forall>p k. CardInsert p k \<in> set log \<longrightarrow> p = productId \<and> k = key) \<and>
             insertCard e productId key = None)) \<and>
   trim (extractCardKey payload) = extractCardKey payload"
proof (intro conjI impI)
  assume h: "pullOneCardFromApi e productId = (log, Inr out) \<and> ok out"
  then have l: "fst (pullOneCardFromApi e productId) = log"
    and r: "snd (pullOneCardFromApi e productId) = Inr out" and k: "ok out"
    by simp_all
  from pull_success_insert[OF r k] l obtain key where
    key: "cardKey out = Some key" "CardInsert productId key \<in> set log"
    by auto
  from key(2) l have a: "CardInsert productId key \<in> set (fst (pullOneCardFromApi e productId))"
    by simp
  from pull_insert_attempted[OF a] r k have "insertCard e productId key = None"
    by (auto split: option.splits sum.splits if_splits)
  with pull_insert_attempted[OF a] key l
  show "\<exists>key. cardKey out = Some key \<and> key \<noteq> [] \<and> trim key = key \<and>
             CardInsert productId key \<in> set log \<and>
             (\<forall>p k. CardInsert p k \<in> set log \<longrightarrow> p = productId \<and> k = key) \<and>
             insertCard e productId key = None"
    by blast
next
  show "trim (extractCardKey payload) = extractCardKey payload"
    by (rule extract_trimmed)
qed

theorem pull_success_card_witness:
  "\<exists>key. cardKey \<lparr>ok = True, skipped = None, error = None, cardKey = Some ''ABC123''\<rparr> = Some key \<and>
      key \<noteq> [] \<and> trim key = key \<and>
      CardInsert ''p1'' key \<in>
        set [SettingsRead [''cards_api_enabled_p1'', ''cards_api_url_p1'', ''cards_api_token_p1''],
             HttpFetch (apiRequest ''https://x/y'' \<lparr>enabled = True, url = ''https://x/y'', token = []\<rparr>),
             CardInsert ''p1'' ''ABC123''] \<and>
      insertCard (scenarioEnv scenarioTable (Inr scenarioResponse) None) ''p1'' key = None"
proof -
  let ?out = "\<lparr>ok = True, skipped = None, error = None, cardKey = Some ''ABC123''\<rparr>"
  let ?log = "[SettingsRead [''cards_api_enabled_p1'', ''cards_api_url_p1'', ''cards_api_token_p1''],
     HttpFetch (apiRequest ''https://x/y'' \<lparr>enabled = True, url = ''https://x/y'', token = []\<rparr>),
     CardInsert ''p1'' ''ABC123'']"
  have h: "pullOneCardFromApi (scenarioEnv scenarioTable (Inr scenarioResponse) None) ''p1'' =
      (?log, Inr ?out) \<and> ok ?out"
    by (simp add: scenario_pull)
  from pull_success_card[where e = "scenarioEnv scenarioTable (Inr scenarioResponse) None"
      and productId = "''p1''" and log = ?log and out = ?out] h
  show ?thesis
    by blast
qed

end
